theory Spec2Isabelle
  imports Main
begin

section \<open>Text as a sequence of code points\<close>

text \<open>
  A Python \<open>str\<close> is a sequence of Unicode code points; \<open>len\<close> counts code points.
  A code point is modelled by its number, a text by the list of its code points.
\<close>

type_synonym codepoint = nat
type_synonym str = "codepoint list"

section \<open>The Unicode character database consulted by the patterns\<close>

text \<open>
  The patterns of \<open>patterns.py\<close> name Unicode properties (\<open>\p{Zs}\<close>, \<open>\p{Script=Han}\<close>,
  \<open>\p{Block=Kangxi_Radicals}\<close>, \<open>\s\<close>). The property tables belong to the \<open>regex\<close> library,
  not to the repository; they are transcribed here as inclusive code point ranges from the
  Unicode Character Database, version 15.0 (\<open>Scripts.txt\<close>, \<open>Blocks.txt\<close>, \<open>PropList.txt\<close>,
  general category \<open>Zs\<close>).
\<close>

definition in_ranges :: "(nat \<times> nat) list \<Rightarrow> codepoint \<Rightarrow> bool" where
  "in_ranges rs c = list_ex (\<lambda>(lo, hi). lo \<le> c \<and> c \<le> hi) rs"

definition Script_Han :: "(nat \<times> nat) list" where
  "Script_Han =
    [(0x2E80, 0x2E99), (0x2E9B, 0x2EF3), (0x2F00, 0x2FD5), (0x3005, 0x3005), (0x3007, 0x3007),
     (0x3021, 0x3029), (0x3038, 0x303B), (0x3400, 0x4DBF), (0x4E00, 0x9FFF), (0xF900, 0xFA6D),
     (0xFA70, 0xFAD9), (0x16FE2, 0x16FE3), (0x16FF0, 0x16FF1), (0x20000, 0x2A6DF),
     (0x2A700, 0x2B739), (0x2B740, 0x2B81D), (0x2B820, 0x2CEA1), (0x2CEB0, 0x2EBE0),
     (0x2F800, 0x2FA1D), (0x30000, 0x3134A), (0x31350, 0x323AF)]"

definition Script_Hiragana :: "(nat \<times> nat) list" where
  "Script_Hiragana =
    [(0x3041, 0x3096), (0x309D, 0x309F), (0x1B001, 0x1B11F), (0x1B132, 0x1B132),
     (0x1B150, 0x1B152), (0x1F200, 0x1F200)]"

definition Script_Katakana :: "(nat \<times> nat) list" where
  "Script_Katakana =
    [(0x30A1, 0x30FA), (0x30FD, 0x30FF), (0x31F0, 0x31FF), (0x32D0, 0x32FE), (0x3300, 0x3357),
     (0xFF66, 0xFF6F), (0xFF71, 0xFF9D), (0x1AFF0, 0x1AFF3), (0x1AFF5, 0x1AFFB),
     (0x1AFFD, 0x1AFFE), (0x1B000, 0x1B000), (0x1B120, 0x1B122), (0x1B155, 0x1B155),
     (0x1B164, 0x1B167)]"

definition Script_Hangul :: "(nat \<times> nat) list" where
  "Script_Hangul =
    [(0x1100, 0x11FF), (0x302E, 0x302F), (0x3131, 0x318E), (0x3200, 0x321E), (0x3260, 0x327E),
     (0xA960, 0xA97C), (0xAC00, 0xD7A3), (0xD7B0, 0xD7C6), (0xD7CB, 0xD7FB), (0xFFA0, 0xFFBE),
     (0xFFC2, 0xFFC7), (0xFFCA, 0xFFCF), (0xFFD2, 0xFFD7), (0xFFDA, 0xFFDC)]"

definition Script_Bopomofo :: "(nat \<times> nat) list" where
  "Script_Bopomofo = [(0x02EA, 0x02EB), (0x3105, 0x312F), (0x31A0, 0x31BF)]"

definition Block_Halfwidth_and_Fullwidth_Forms :: "(nat \<times> nat) list" where
  "Block_Halfwidth_and_Fullwidth_Forms = [(0xFF00, 0xFFEF)]"

definition Block_CJK_Symbols_and_Punctuation :: "(nat \<times> nat) list" where
  "Block_CJK_Symbols_and_Punctuation = [(0x3000, 0x303F)]"

definition Block_Enclosed_CJK_Letters_and_Months :: "(nat \<times> nat) list" where
  "Block_Enclosed_CJK_Letters_and_Months = [(0x3200, 0x32FF)]"

definition Block_CJK_Compatibility :: "(nat \<times> nat) list" where
  "Block_CJK_Compatibility = [(0x3300, 0x33FF)]"

definition Block_CJK_Compatibility_Forms :: "(nat \<times> nat) list" where
  "Block_CJK_Compatibility_Forms = [(0xFE30, 0xFE4F)]"

definition Block_Vertical_Forms :: "(nat \<times> nat) list" where
  "Block_Vertical_Forms = [(0xFE10, 0xFE1F)]"

definition Block_Kangxi_Radicals :: "(nat \<times> nat) list" where
  "Block_Kangxi_Radicals = [(0x2F00, 0x2FDF)]"

definition Block_CJK_Radicals_Supplement :: "(nat \<times> nat) list" where
  "Block_CJK_Radicals_Supplement = [(0x2E80, 0x2EFF)]"

definition Block_Ideographic_Symbols_and_Punctuation :: "(nat \<times> nat) list" where
  "Block_Ideographic_Symbols_and_Punctuation = [(0x16FE0, 0x16FFF)]"

definition Block_Katakana_Phonetic_Extensions :: "(nat \<times> nat) list" where
  "Block_Katakana_Phonetic_Extensions = [(0x31F0, 0x31FF)]"

definition Block_Enclosed_Alphanumerics :: "(nat \<times> nat) list" where
  "Block_Enclosed_Alphanumerics = [(0x2460, 0x24FF)]"

text \<open>General category \<open>Zs\<close> (space separators).\<close>

definition Category_Zs :: "(nat \<times> nat) list" where
  "Category_Zs =
    [(0x0020, 0x0020), (0x00A0, 0x00A0), (0x1680, 0x1680), (0x2000, 0x200A), (0x202F, 0x202F),
     (0x205F, 0x205F), (0x3000, 0x3000)]"

text \<open>
  The escape \<open>\s\<close> of the \<open>regex\<close> library on a \<open>str\<close> pattern is the Unicode property
  \<open>White_Space\<close>: the whitespace of \<open>SPACES\<close> and, beyond it, U+0085, U+2028 and U+2029.
\<close>

definition White_Space :: "(nat \<times> nat) list" where
  "White_Space =
    [(0x0009, 0x000D), (0x0020, 0x0020), (0x0085, 0x0085), (0x00A0, 0x00A0), (0x1680, 0x1680),
     (0x2000, 0x200A), (0x2028, 0x2029), (0x202F, 0x202F), (0x205F, 0x205F), (0x3000, 0x3000)]"

section \<open>The fragment of the regex engine the program uses\<close>

text \<open>
  Every pattern of \<open>patterns.py\<close> is a single character class, either repeated with \<open>+\<close>
  (\<open>[...]+\<close>) or matching one character (\<open>[...]\<close>). A class is modelled by its membership
  predicate.
\<close>

datatype pattern = ClassPlus "codepoint \<Rightarrow> bool" | ClassOne "codepoint \<Rightarrow> bool"

text \<open>
  \<open>finditer\<close> for \<open>[...]+\<close>: scan from the left; at a character of the class the match is
  the longest stretch of class characters starting there (\<open>+\<close> is greedy), and the scan
  resumes after the match; any other character is skipped.
\<close>

function finditer_plus :: "('a \<Rightarrow> bool) \<Rightarrow> 'a list \<Rightarrow> 'a list list" where
  "finditer_plus P [] = []"
| "finditer_plus P (c # cs) =
     (if P c then takeWhile P (c # cs) # finditer_plus P (dropWhile P cs)
      else finditer_plus P cs)"
  by pat_completeness auto
termination
  by (relation "measure (\<lambda>(P, cs). length cs)")
     (auto simp: length_dropWhile_le less_Suc_eq_le)

text \<open>\<open>finditer\<close> for \<open>[...]\<close>: every character of the class is a match of its own.\<close>

fun finditer_one :: "('a \<Rightarrow> bool) \<Rightarrow> 'a list \<Rightarrow> 'a list list" where
  "finditer_one P [] = []"
| "finditer_one P (c # cs) = (if P c then [c] # finditer_one P cs else finditer_one P cs)"

fun finditer :: "pattern \<Rightarrow> str \<Rightarrow> str list" where
  "finditer (ClassPlus P) t = finditer_plus P t"
| "finditer (ClassOne P) t = finditer_one P t"

text \<open>
  \<open>sub(repl, text)\<close>: the text with every match replaced by \<open>repl\<close>; characters outside the
  matches are copied.
\<close>

function sub_plus :: "('a \<Rightarrow> bool) \<Rightarrow> 'a list \<Rightarrow> 'a list \<Rightarrow> 'a list" where
  "sub_plus P repl [] = []"
| "sub_plus P repl (c # cs) =
     (if P c then repl @ sub_plus P repl (dropWhile P cs)
      else c # sub_plus P repl cs)"
  by pat_completeness auto
termination
  by (relation "measure (\<lambda>(P, repl, cs). length cs)")
     (auto simp: length_dropWhile_le less_Suc_eq_le)

fun sub_one :: "('a \<Rightarrow> bool) \<Rightarrow> 'a list \<Rightarrow> 'a list \<Rightarrow> 'a list" where
  "sub_one P repl [] = []"
| "sub_one P repl (c # cs) = (if P c then repl @ sub_one P repl cs else c # sub_one P repl cs)"

fun sub :: "pattern \<Rightarrow> str \<Rightarrow> str \<Rightarrow> str" where
  "sub (ClassPlus P) repl t = sub_plus P repl t"
| "sub (ClassOne P) repl t = sub_one P repl t"

section \<open>patterns.py\<close>

text \<open>The class \<open>[\p{Zs}\t\n\r\f\v]\<close>.\<close>

definition SPACES_class :: "codepoint \<Rightarrow> bool" where
  "SPACES_class c \<longleftrightarrow>
     in_ranges Category_Zs c \<or> c = 0x09 \<or> c = 0x0A \<or> c = 0x0D \<or> c = 0x0C \<or> c = 0x0B"

definition SPACES :: pattern where
  "SPACES = ClassPlus SPACES_class"

text \<open>The class \<open>[\r\n]\<close>.\<close>

definition BREAKS_class :: "codepoint \<Rightarrow> bool" where
  "BREAKS_class c \<longleftrightarrow> c = 0x0D \<or> c = 0x0A"

definition BREAKS :: pattern where
  "BREAKS = ClassPlus BREAKS_class"

text \<open>The class items of \<open>ASIAN_PATTERN\<close>, in the order of the source.\<close>

definition ASIAN_PATTERN :: "codepoint \<Rightarrow> bool" where
  "ASIAN_PATTERN c \<longleftrightarrow>
     in_ranges Script_Han c \<or>
     in_ranges Script_Hiragana c \<or>
     in_ranges Script_Katakana c \<or>
     in_ranges Script_Hangul c \<or>
     in_ranges Script_Bopomofo c \<or>
     in_ranges Block_Halfwidth_and_Fullwidth_Forms c \<or>
     in_ranges Block_CJK_Symbols_and_Punctuation c \<or>
     in_ranges Block_Enclosed_CJK_Letters_and_Months c \<or>
     in_ranges Block_CJK_Compatibility c \<or>
     in_ranges Block_CJK_Compatibility_Forms c \<or>
     in_ranges Block_Vertical_Forms c \<or>
     in_ranges Block_Kangxi_Radicals c \<or>
     in_ranges Block_CJK_Radicals_Supplement c \<or>
     in_ranges Block_Ideographic_Symbols_and_Punctuation c \<or>
     in_ranges Block_Katakana_Phonetic_Extensions c \<or>
     c = 0x30FB \<or> c = 0x30FC"

text \<open>The class of U+FEFF, U+200B, U+FE00 to U+FE0F and U+E0100 to U+E01EF.\<close>

definition CHAR_EXCLUDES_class :: "codepoint \<Rightarrow> bool" where
  "CHAR_EXCLUDES_class c \<longleftrightarrow>
     c = 0xFEFF \<or> c = 0x200B \<or> (0xFE00 \<le> c \<and> c \<le> 0xFE0F) \<or> (0xE0100 \<le> c \<and> c \<le> 0xE01EF)"

definition CHAR_EXCLUDES :: pattern where
  "CHAR_EXCLUDES = ClassPlus CHAR_EXCLUDES_class"

text \<open>The class of U+2028 and U+2029, not repeated.\<close>

definition UNICODE_SEPARATORS_class :: "codepoint \<Rightarrow> bool" where
  "UNICODE_SEPARATORS_class c \<longleftrightarrow> c = 0x2028 \<or> c = 0x2029"

definition UNICODE_SEPARATORS :: pattern where
  "UNICODE_SEPARATORS = ClassOne UNICODE_SEPARATORS_class"

definition ASIANS :: pattern where
  "ASIANS = ClassPlus ASIAN_PATTERN"

text \<open>The negated class \<open>[^{ASIAN_PATTERN}\s]\<close>.\<close>

definition NON_ASIAN_WORDS_class :: "codepoint \<Rightarrow> bool" where
  "NON_ASIAN_WORDS_class c \<longleftrightarrow> \<not> (ASIAN_PATTERN c \<or> in_ranges White_Space c)"

definition NON_ASIAN_WORDS :: pattern where
  "NON_ASIAN_WORDS = ClassPlus NON_ASIAN_WORDS_class"

section \<open>statistics.py\<close>

record Statistics =
  words :: int
  characters_no_space :: int
  characters_with_space :: int
  non_asian_words :: int
  asian_characters :: int

text \<open>\<open>Statistics.__add__\<close>: a new record, built from the fields of the two operands.\<close>

definition add_Statistics :: "Statistics \<Rightarrow> Statistics \<Rightarrow> Statistics" where
  "add_Statistics self other =
     \<lparr> words = words self + words other,
       characters_no_space = characters_no_space self + characters_no_space other,
       characters_with_space = characters_with_space self + characters_with_space other,
       non_asian_words = non_asian_words self + non_asian_words other,
       asian_characters = asian_characters self + asian_characters other \<rparr>"

definition zero_Statistics :: Statistics where
  "zero_Statistics =
     \<lparr> words = 0, characters_no_space = 0, characters_with_space = 0,
       non_asian_words = 0, asian_characters = 0 \<rparr>"

section \<open>counter.py\<close>

definition count_words :: "str \<Rightarrow> int" where
  "count_words t =
     (let asian_characters = sum_list (map (\<lambda>m. int (length m)) (finditer ASIANS t));
          non_asian_words = sum_list (map (\<lambda>_. 1) (finditer NON_ASIAN_WORDS t));
          separator_words = sum_list (map (\<lambda>_. 1) (finditer UNICODE_SEPARATORS t))
      in non_asian_words + asian_characters + separator_words)"

definition count_characters :: "str \<Rightarrow> int" where
  "count_characters t =
     (let stripped = sub SPACES [] t
      in int (length (sub CHAR_EXCLUDES [] stripped)))"

definition count_characters_with_space :: "str \<Rightarrow> int" where
  "count_characters_with_space t =
     (let stripped = sub BREAKS [] t
      in int (length (sub CHAR_EXCLUDES [] stripped)))"

definition calculate_word_statistics :: "str \<Rightarrow> Statistics" where
  "calculate_word_statistics t =
     (let asian_characters = sum_list (map (\<lambda>m. int (length m)) (finditer ASIANS t));
          non_asian_words = sum_list (map (\<lambda>_. 1) (finditer NON_ASIAN_WORDS t));
          separator_words = sum_list (map (\<lambda>_. 1) (finditer UNICODE_SEPARATORS t))
      in \<lparr> words = non_asian_words + asian_characters + separator_words,
           characters_no_space = count_characters t,
           characters_with_space = count_characters_with_space t,
           non_asian_words = non_asian_words,
           asian_characters = asian_characters \<rparr>)"

section \<open>The vocabulary of the specification\<close>

text \<open>
  The whitespace set of the "no-space" count: space separators (category \<open>Zs\<close>), tab,
  newline, carriage return, form feed and vertical tab.
\<close>

definition whitespace_set :: "codepoint \<Rightarrow> bool" where
  "whitespace_set c \<longleftrightarrow>
     in_ranges Category_Zs c \<or> c = 0x09 \<or> c = 0x0A \<or> c = 0x0D \<or> c = 0x0C \<or> c = 0x0B"

text \<open>The line-break set of the "with-space" count: carriage return and line feed.\<close>

definition line_break_set :: "codepoint \<Rightarrow> bool" where
  "line_break_set c \<longleftrightarrow> c = 0x0D \<or> c = 0x0A"

text \<open>
  The excluded marks: U+FEFF, U+200B, the variation selectors U+FE00 to U+FE0F and the
  variation selectors supplement U+E0100 to U+E01EF.
\<close>

definition excluded_mark :: "codepoint \<Rightarrow> bool" where
  "excluded_mark c \<longleftrightarrow>
     c = 0xFEFF \<or> c = 0x200B \<or> c \<in> {0xFE00..0xFE0F} \<or> c \<in> {0xE0100..0xE01EF}"

text \<open>The Unicode line and paragraph separators.\<close>

definition unicode_separator :: "codepoint \<Rightarrow> bool" where
  "unicode_separator c \<longleftrightarrow> c = 0x2028 \<or> c = 0x2029"

text \<open>
  Maximal runs of consecutive characters of a class: a run starts at every position that
  holds a character of the class and is not preceded by one, and extends over the class
  characters that follow.
\<close>

definition run_starts :: "('a \<Rightarrow> bool) \<Rightarrow> 'a list \<Rightarrow> nat list" where
  "run_starts P xs =
     filter (\<lambda>i. P (xs ! i) \<and> (i = 0 \<or> \<not> P (xs ! (i - 1)))) [0..<length xs]"

definition maximal_runs :: "('a \<Rightarrow> bool) \<Rightarrow> 'a list \<Rightarrow> 'a list list" where
  "maximal_runs P xs = map (\<lambda>i. takeWhile P (drop i xs)) (run_starts P xs)"

text \<open>
  The same runs collected in one pass from the left, \<open>prev\<close> telling whether the character
  before the rest of the text belongs to the class.
\<close>

fun runs_after :: "('a \<Rightarrow> bool) \<Rightarrow> bool \<Rightarrow> 'a list \<Rightarrow> 'a list list" where
  "runs_after P prev [] = []"
| "runs_after P prev (c # cs) =
     (if P c \<and> \<not> prev then [takeWhile P (c # cs)] else []) @ runs_after P (P c) cs"

text \<open>Inserting a character at a position: Python's \<open>s[:i] + c + s[i:]\<close>.\<close>

definition insert_at :: "nat \<Rightarrow> 'a \<Rightarrow> 'a list \<Rightarrow> 'a list" where
  "insert_at i c s = take i s @ [c] @ drop i s"

text \<open>
  Position \<open>i\<close> of a text is beside a word when the character directly before it or the
  character directly at it is a character of a non-Asian word.
\<close>

definition beside_word :: "nat \<Rightarrow> str \<Rightarrow> bool" where
  "beside_word i s \<longleftrightarrow>
     (0 < i \<and> i \<le> length s \<and> NON_ASIAN_WORDS_class (s ! (i - 1))) \<or>
     (i < length s \<and> NON_ASIAN_WORDS_class (s ! i))"

section \<open>The regex fragment: substitution filters, matches are the maximal runs\<close>

lemma filter_not_dropWhile: "filter (\<lambda>c. \<not> P c) (dropWhile P cs) = filter (\<lambda>c. \<not> P c) cs"
  by (induction cs) auto

lemma sub_plus_empty: "sub_plus P [] xs = filter (\<lambda>c. \<not> P c) xs"
  by (induction P "[] :: 'a list" xs rule: sub_plus.induct) (auto simp: filter_not_dropWhile)

lemma length_takeWhile_filter_dropWhile:
  "length (takeWhile P cs) + length (filter P (dropWhile P cs)) = length (filter P cs)"
  by (induction cs) auto

lemma sum_length_finditer_plus:
  "sum_list (map (\<lambda>m. int (length m)) (finditer_plus P xs)) = int (length (filter P xs))"
proof (induction P xs rule: finditer_plus.induct)
  case (1 P)
  then show ?case by simp
next
  case (2 P c cs)
  show ?case
  proof (cases "P c")
    case True
    with 2 length_takeWhile_filter_dropWhile[of P cs] show ?thesis by simp
  next
    case False
    with 2 show ?thesis by simp
  qed
qed

lemma count_matches: "sum_list (map (\<lambda>_. 1) ms) = int (length ms)"
  by (induction ms) auto

lemma length_finditer_one: "length (finditer_one P xs) = length (filter P xs)"
  by (induction xs) auto

lemma runs_after_True_dropWhile: "runs_after P True cs = runs_after P False (dropWhile P cs)"
  by (induction cs) auto

lemma finditer_plus_runs_after: "finditer_plus P xs = runs_after P False xs"
  by (induction P xs rule: finditer_plus.induct) (auto simp: runs_after_True_dropWhile)

lemma runs_after_index:
  "runs_after P prev xs =
     map (\<lambda>i. takeWhile P (drop i xs))
       (filter (\<lambda>i. P (xs ! i) \<and> (if i = 0 then \<not> prev else \<not> P (xs ! (i - 1))))
          [0..<length xs])"
proof (induction xs arbitrary: prev)
  case Nil
  then show ?case by simp
next
  case (Cons c cs)
  have upt: "[0..<length (c # cs)] = 0 # map Suc [0..<length cs]"
    by (metis length_Cons map_Suc_upt upt_conv_Cons zero_less_Suc)
  show ?case
    unfolding upt
    by (simp add: Cons.IH filter_map o_def nth_Cons' cong: if_cong)
qed

lemma finditer_plus_maximal_runs: "finditer_plus P xs = maximal_runs P xs"
  unfolding maximal_runs_def run_starts_def finditer_plus_runs_after runs_after_index
  by (rule arg_cong[where f="map _"], rule filter_cong) auto

section \<open>Facts about the character classes\<close>

lemmas ucd_tables =
  in_ranges_def Script_Han_def Script_Hiragana_def Script_Katakana_def Script_Hangul_def
  Script_Bopomofo_def Block_Halfwidth_and_Fullwidth_Forms_def
  Block_CJK_Symbols_and_Punctuation_def Block_Enclosed_CJK_Letters_and_Months_def
  Block_CJK_Compatibility_def Block_CJK_Compatibility_Forms_def Block_Vertical_Forms_def
  Block_Kangxi_Radicals_def Block_CJK_Radicals_Supplement_def
  Block_Ideographic_Symbols_and_Punctuation_def Block_Katakana_Phonetic_Extensions_def
  Block_Enclosed_Alphanumerics_def Category_Zs_def White_Space_def

text \<open>The classes of the patterns are the sets the specification names.\<close>

lemma SPACES_class_whitespace_set: "SPACES_class = whitespace_set"
  by (rule ext) (simp add: SPACES_class_def whitespace_set_def)

lemma BREAKS_class_line_break_set: "BREAKS_class = line_break_set"
  by (rule ext) (simp add: BREAKS_class_def line_break_set_def)

lemma CHAR_EXCLUDES_class_excluded_mark: "CHAR_EXCLUDES_class = excluded_mark"
  by (rule ext) (simp add: CHAR_EXCLUDES_class_def excluded_mark_def)

lemma UNICODE_SEPARATORS_class_unicode_separator: "UNICODE_SEPARATORS_class = unicode_separator"
  by (rule ext) (simp add: UNICODE_SEPARATORS_class_def unicode_separator_def)

text \<open>
  U+2028 and U+2029 are whitespace for \<open>\s\<close>, but they are neither Asian, nor in the
  whitespace set (their categories are \<open>Zl\<close> and \<open>Zp\<close>, not \<open>Zs\<close>), nor excluded marks.
\<close>

lemma separator_not_asian: "unicode_separator c \<Longrightarrow> \<not> ASIAN_PATTERN c"
  unfolding unicode_separator_def
  by (elim disjE; simp add: ASIAN_PATTERN_def ucd_tables)

lemma separator_White_Space: "unicode_separator c \<Longrightarrow> in_ranges White_Space c"
  unfolding unicode_separator_def
  by (elim disjE; simp add: ucd_tables)

lemma separator_not_word: "unicode_separator c \<Longrightarrow> \<not> NON_ASIAN_WORDS_class c"
  by (simp add: NON_ASIAN_WORDS_class_def separator_White_Space)

lemma separator_not_whitespace_set: "unicode_separator c \<Longrightarrow> \<not> whitespace_set c"
  unfolding unicode_separator_def
  by (elim disjE; simp add: whitespace_set_def ucd_tables)

lemma separator_not_line_break: "unicode_separator c \<Longrightarrow> \<not> line_break_set c"
  unfolding unicode_separator_def
  by (elim disjE; simp add: line_break_set_def)

lemma separator_not_excluded: "unicode_separator c \<Longrightarrow> \<not> excluded_mark c"
  unfolding unicode_separator_def
  by (elim disjE; simp add: excluded_mark_def)

lemma line_break_whitespace: "line_break_set c \<Longrightarrow> whitespace_set c"
  by (auto simp: line_break_set_def whitespace_set_def)

text \<open>An excluded mark is neither Asian nor whitespace: it is a character of a word.\<close>

lemma excluded_not_asian: "excluded_mark c \<Longrightarrow> \<not> ASIAN_PATTERN c"
  unfolding excluded_mark_def
  by (elim disjE; simp add: ASIAN_PATTERN_def ucd_tables)

lemma excluded_not_White_Space: "excluded_mark c \<Longrightarrow> \<not> in_ranges White_Space c"
  unfolding excluded_mark_def
  by (elim disjE; simp add: ucd_tables)

lemma excluded_word: "excluded_mark c \<Longrightarrow> NON_ASIAN_WORDS_class c"
  by (simp add: NON_ASIAN_WORDS_class_def excluded_not_asian excluded_not_White_Space)

lemma enclosed_alphanumerics_not_asian:
  "in_ranges Block_Enclosed_Alphanumerics c \<Longrightarrow> \<not> ASIAN_PATTERN c"
  by (simp add: ASIAN_PATTERN_def ucd_tables)

section \<open>The counters in closed form\<close>

lemma count_characters_filter:
  "count_characters t =
     int (length (filter (\<lambda>c. \<not> excluded_mark c) (filter (\<lambda>c. \<not> whitespace_set c) t)))"
  by (simp add: count_characters_def SPACES_def CHAR_EXCLUDES_def sub_plus_empty
      SPACES_class_whitespace_set CHAR_EXCLUDES_class_excluded_mark)

lemma count_characters_with_space_filter:
  "count_characters_with_space t =
     int (length (filter (\<lambda>c. \<not> excluded_mark c) (filter (\<lambda>c. \<not> line_break_set c) t)))"
  by (simp add: count_characters_with_space_def BREAKS_def CHAR_EXCLUDES_def sub_plus_empty
      BREAKS_class_line_break_set CHAR_EXCLUDES_class_excluded_mark)

lemma asian_characters_filter:
  "asian_characters (calculate_word_statistics t) = int (length (filter ASIAN_PATTERN t))"
  by (simp add: Let_def calculate_word_statistics_def ASIANS_def sum_length_finditer_plus)

lemma non_asian_words_finditer:
  "non_asian_words (calculate_word_statistics t)
     = int (length (finditer_plus NON_ASIAN_WORDS_class t))"
  by (simp add: Let_def calculate_word_statistics_def NON_ASIAN_WORDS_def count_matches)

lemma words_sum:
  "words (calculate_word_statistics t)
     = int (length (finditer_plus NON_ASIAN_WORDS_class t))
       + int (length (filter ASIAN_PATTERN t))
       + int (length (filter unicode_separator t))"
  by (simp add: Let_def calculate_word_statistics_def NON_ASIAN_WORDS_def ASIANS_def
      UNICODE_SEPARATORS_def count_matches sum_length_finditer_plus length_finditer_one
      UNICODE_SEPARATORS_class_unicode_separator)

lemma count_words_sum:
  "count_words t
     = int (length (finditer_plus NON_ASIAN_WORDS_class t))
       + int (length (filter ASIAN_PATTERN t))
       + int (length (filter unicode_separator t))"
  by (simp add: Let_def count_words_def NON_ASIAN_WORDS_def ASIANS_def
      UNICODE_SEPARATORS_def count_matches sum_length_finditer_plus length_finditer_one
      UNICODE_SEPARATORS_class_unicode_separator)

lemma characters_no_space_filter:
  "characters_no_space (calculate_word_statistics t)
     = int (length (filter (\<lambda>c. \<not> excluded_mark c) (filter (\<lambda>c. \<not> whitespace_set c) t)))"
  by (simp add: Let_def calculate_word_statistics_def count_characters_filter)

lemma characters_with_space_filter:
  "characters_with_space (calculate_word_statistics t)
     = int (length (filter (\<lambda>c. \<not> excluded_mark c) (filter (\<lambda>c. \<not> line_break_set c) t)))"
  by (simp add: Let_def calculate_word_statistics_def count_characters_with_space_filter)

lemmas stats_fields = asian_characters_filter non_asian_words_finditer words_sum
  characters_no_space_filter characters_with_space_filter

lemmas class_defs = NON_ASIAN_WORDS_class_def ASIAN_PATTERN_def unicode_separator_def
  excluded_mark_def whitespace_set_def line_break_set_def ucd_tables

section \<open>Bounds on the numbers of matches\<close>

lemma length_finditer_plus_le: "length (finditer_plus P xs) \<le> length (filter P xs)"
proof (induction P xs rule: finditer_plus.induct)
  case (1 P)
  then show ?case by simp
next
  case (2 P c cs)
  show ?case
  proof (cases "P c")
    case True
    with 2 length_takeWhile_filter_dropWhile[of P cs] show ?thesis by simp
  next
    case False
    with 2 show ?thesis by simp
  qed
qed

lemma three_disjoint_filters:
  assumes "\<And>x. P x \<Longrightarrow> \<not> Q x" "\<And>x. P x \<Longrightarrow> \<not> R x" "\<And>x. Q x \<Longrightarrow> \<not> R x"
  shows "length (filter P xs) + length (filter Q xs) + length (filter R xs) \<le> length xs"
  using assms by (induction xs) auto

lemma words_le_length:
  "int (length (finditer_plus NON_ASIAN_WORDS_class t))
       + int (length (filter ASIAN_PATTERN t))
       + int (length (filter unicode_separator t)) \<le> int (length t)"
proof -
  have "length (filter NON_ASIAN_WORDS_class t) + length (filter ASIAN_PATTERN t)
          + length (filter unicode_separator t) \<le> length t"
    by (rule three_disjoint_filters)
       (auto simp: NON_ASIAN_WORDS_class_def separator_not_asian separator_White_Space)
  with length_finditer_plus_le[of NON_ASIAN_WORDS_class t] show ?thesis by linarith
qed

section \<open>Runs under appending and inserting a character\<close>

lemma length_runs_after_append:
  "length (runs_after P prev (xs @ ys))
     = length (runs_after P prev xs)
       + length (runs_after P (if xs = [] then prev else P (last xs)) ys)"
  by (induction xs arbitrary: prev) auto

lemma length_runs_after_False:
  "length (runs_after P False ys)
     = length (runs_after P True ys) + (if ys \<noteq> [] \<and> P (hd ys) then 1 else 0)"
  by (cases ys) auto

lemma length_finditer_plus_append_other:
  "\<not> P c \<Longrightarrow> length (finditer_plus P (t @ [c])) = length (finditer_plus P t)"
  by (simp add: finditer_plus_runs_after length_runs_after_append)

lemma length_finditer_plus_insert:
  assumes "P c"
  shows "length (finditer_plus P (xs @ [c] @ ys))
     = length (finditer_plus P (xs @ ys))
       + (if (xs \<noteq> [] \<and> P (last xs)) \<or> (ys \<noteq> [] \<and> P (hd ys)) then 0 else 1)"
proof -
  have "length (runs_after P b (c # ys)) = (if b then 0 else 1) + length (runs_after P True ys)"
    for b
    using assms by simp
  then show ?thesis
    using length_runs_after_False[of P ys]
    by (simp add: finditer_plus_runs_after length_runs_after_append[of P False xs])
qed

lemma beside_word_take_drop:
  assumes "i \<le> length s"
  shows "beside_word i s \<longleftrightarrow>
     (take i s \<noteq> [] \<and> NON_ASIAN_WORDS_class (last (take i s))) \<or>
     (drop i s \<noteq> [] \<and> NON_ASIAN_WORDS_class (hd (drop i s)))"
proof -
  have l: "take i s \<noteq> [] \<longleftrightarrow> 0 < i" using assms by auto
  have r: "drop i s \<noteq> [] \<longleftrightarrow> i < length s" by auto
  have ll: "last (take i s) = s ! (i - 1)" if "0 < i"
  proof -
    have "take i s \<noteq> []" using that assms by auto
    then have "last (take i s) = take i s ! (length (take i s) - 1)"
      by (rule last_conv_nth)
    also have "length (take i s) = i" using assms by simp
    also have "take i s ! (i - 1) = s ! (i - 1)" using that by simp
    finally show ?thesis .
  qed
  have rr: "hd (drop i s) = s ! i" if "i < length s"
    using that by (simp add: hd_drop_conv_nth)
  show ?thesis
    unfolding beside_word_def l r using assms ll rr by auto
qed

section \<open>The whitespace of the word pattern\<close>

lemma int_sum_lengths:
  "int (sum_list (map length ms)) = sum_list (map (\<lambda>m. int (length m)) ms)"
  by (induction ms) simp_all

lemma NON_ASIAN_WORDS_class_conj:
  "NON_ASIAN_WORDS_class = (\<lambda>c. \<not> ASIAN_PATTERN c \<and> \<not> in_ranges White_Space c)"
  by (rule ext) (simp add: NON_ASIAN_WORDS_class_def)

lemma Zs_White_Space: "in_ranges Category_Zs c \<Longrightarrow> in_ranges White_Space c"
  by (simp add: ucd_tables) arith

lemma whitespace_set_White_Space: "whitespace_set c \<Longrightarrow> in_ranges White_Space c"
  unfolding whitespace_set_def
  by (elim disjE; simp add: Zs_White_Space) (simp_all add: ucd_tables)

lemma White_Space_cases:
  "in_ranges White_Space c \<longleftrightarrow> whitespace_set c \<or> c = 0x85 \<or> unicode_separator c"
proof
  show "whitespace_set c \<or> c = 0x85 \<or> unicode_separator c" if "in_ranges White_Space c"
    using that
    apply (simp add: ucd_tables whitespace_set_def unicode_separator_def)
    apply (elim disjE conjE)
    apply (simp_all (no_asm_simp))
    apply arith+
    done
next
  assume "whitespace_set c \<or> c = 0x85 \<or> unicode_separator c"
  then consider "whitespace_set c" | "c = 0x85" | "unicode_separator c" by blast
  then show "in_ranges White_Space c"
  proof cases
    case 1
    then show ?thesis by (rule whitespace_set_White_Space)
  next
    case 2
    then show ?thesis by (simp add: ucd_tables)
  next
    case 3
    then show ?thesis by (rule separator_White_Space)
  qed
qed

section \<open>Statistics addition\<close>

text \<open>
  C8. Addition of statistics is field by field, commutative and associative, and the
  all-zero record is its identity on both sides. The result is a new value: the operands
  are values of an immutable record and each field of the result is the sum of the
  operands' fields, which are read and never written.
\<close>

theorem C8_add_Statistics:
  "words (add_Statistics a b) = words a + words b \<and>
   characters_no_space (add_Statistics a b) = characters_no_space a + characters_no_space b \<and>
   characters_with_space (add_Statistics a b)
     = characters_with_space a + characters_with_space b \<and>
   non_asian_words (add_Statistics a b) = non_asian_words a + non_asian_words b \<and>
   asian_characters (add_Statistics a b) = asian_characters a + asian_characters b \<and>
   add_Statistics a b = add_Statistics b a \<and>
   add_Statistics (add_Statistics a b) c = add_Statistics a (add_Statistics b c) \<and>
   add_Statistics a zero_Statistics = a \<and>
   add_Statistics zero_Statistics a = a"
  by (simp add: add_Statistics_def zero_Statistics_def)

section \<open>The word total\<close>

text \<open>
  C1. For every text, the \<open>words\<close> field of \<open>calculate_word_statistics\<close> is the sum of
  \<open>non_asian_words\<close>, \<open>asian_characters\<close> and the number of occurrences of U+2028 or
  U+2029 in the text, and \<open>count_words\<close> returns that same sum.
\<close>

theorem C1_words_decomposition:
  "words (calculate_word_statistics t)
     = non_asian_words (calculate_word_statistics t)
       + asian_characters (calculate_word_statistics t)
       + int (length (filter unicode_separator t)) \<and>
   count_words t
     = non_asian_words (calculate_word_statistics t)
       + asian_characters (calculate_word_statistics t)
       + int (length (filter unicode_separator t))"
  by (simp add: stats_fields count_words_sum)

section \<open>The character counts\<close>

text \<open>
  C3. \<open>count_characters\<close> is the number of code points left after removing the characters
  of the whitespace set and then the excluded marks; \<open>count_characters_with_space\<close> is the
  number left after removing carriage returns and line feeds only and then the excluded
  marks. The zero-width joiner U+200D and non-joiner U+200C, wherever they stand, count as
  one character each in both.
\<close>

theorem C3_character_counts:
  "count_characters t
     = int (length (filter (\<lambda>c. \<not> excluded_mark c) (filter (\<lambda>c. \<not> whitespace_set c) t))) \<and>
   count_characters_with_space t
     = int (length (filter (\<lambda>c. \<not> excluded_mark c) (filter (\<lambda>c. \<not> line_break_set c) t))) \<and>
   count_characters (xs @ [0x200D] @ ys) = count_characters (xs @ ys) + 1 \<and>
   count_characters (xs @ [0x200C] @ ys) = count_characters (xs @ ys) + 1 \<and>
   count_characters_with_space (xs @ [0x200D] @ ys) = count_characters_with_space (xs @ ys) + 1 \<and>
   count_characters_with_space (xs @ [0x200C] @ ys) = count_characters_with_space (xs @ ys) + 1"
proof -
  have zwj: "\<not> excluded_mark 0x200D" "\<not> whitespace_set 0x200D" "\<not> line_break_set 0x200D"
    by (simp_all add: class_defs)
  have zwnj: "\<not> excluded_mark 0x200C" "\<not> whitespace_set 0x200C" "\<not> line_break_set 0x200C"
    by (simp_all add: class_defs)
  show ?thesis
    by (simp add: count_characters_filter count_characters_with_space_filter zwj zwnj)
qed

text \<open>
  C6. The count with spaces is never below the count without spaces, and the two agree on
  every text whose only whitespace-set characters are carriage returns and line feeds.
\<close>

theorem C6_with_space_ge_no_space:
  "count_characters t \<le> count_characters_with_space t \<and>
   characters_no_space (calculate_word_statistics t)
     \<le> characters_with_space (calculate_word_statistics t) \<and>
   ((\<forall>c \<in> set t. whitespace_set c \<longrightarrow> line_break_set c) \<longrightarrow>
      count_characters_with_space t = count_characters t \<and>
      characters_with_space (calculate_word_statistics t)
        = characters_no_space (calculate_word_statistics t))"
proof -
  have le: "length (filter (\<lambda>c. \<not> excluded_mark c) (filter (\<lambda>c. \<not> whitespace_set c) t))
          \<le> length (filter (\<lambda>c. \<not> excluded_mark c) (filter (\<lambda>c. \<not> line_break_set c) t))"
  proof (induction t)
    case Nil
    then show ?case by simp
  next
    case (Cons c t)
    then show ?case using line_break_whitespace[of c] by auto
  qed
  have eq: "filter (\<lambda>c. \<not> whitespace_set c) t = filter (\<lambda>c. \<not> line_break_set c) t"
    if "\<forall>c \<in> set t. whitespace_set c \<longrightarrow> line_break_set c"
    using that line_break_whitespace by (intro filter_cong) auto
  show ?thesis
    using le eq
    by (auto simp: count_characters_filter count_characters_with_space_filter stats_fields)
qed

theorem C6_with_space_ge_no_space_witness:
  "count_characters_with_space [0x61, 0x0D, 0x0A, 0x62] = count_characters [0x61, 0x0D, 0x0A, 0x62] \<and>
   count_characters [0x61, 0x0D, 0x0A, 0x62] = 2"
proof -
  have h: "\<forall>c \<in> set [0x61, 0x0D, 0x0A, 0x62 :: nat]. whitespace_set c \<longrightarrow> line_break_set c"
    by (simp add: class_defs)
  have "count_characters [0x61, 0x0D, 0x0A, 0x62] = 2"
    by (simp add: count_characters_filter class_defs)
  with C6_with_space_ge_no_space[of "[0x61, 0x0D, 0x0A, 0x62]"] h show ?thesis
    by blast
qed

section \<open>The record and the standalone accessors\<close>

text \<open>
  C7. The record of \<open>calculate_word_statistics\<close> agrees with the standalone accessors:
  \<open>words\<close> is \<open>count_words\<close>, \<open>characters_no_space\<close> is \<open>count_characters\<close> and
  \<open>characters_with_space\<close> is \<open>count_characters_with_space\<close>.
\<close>

theorem C7_consistent_with_accessors:
  "words (calculate_word_statistics t) = count_words t \<and>
   characters_no_space (calculate_word_statistics t) = count_characters t \<and>
   characters_with_space (calculate_word_statistics t) = count_characters_with_space t"
  by (simp add: calculate_word_statistics_def count_words_def Let_def)

section \<open>Literal scenarios\<close>

text \<open>
  C9. The empty text gives the all-zero record; \<open>Hello\<close>, a space, U+4E16, U+754C gives
  3 words, 1 non-Asian word and 2 Asian characters; the text space, tab, line feed,
  carriage return, space gives no word, no character without spaces, 3 characters with
  spaces, no non-Asian word and no Asian character.
\<close>

theorem C9_literal_scenarios:
  "calculate_word_statistics []
     = \<lparr> words = 0, characters_no_space = 0, characters_with_space = 0,
         non_asian_words = 0, asian_characters = 0 \<rparr> \<and>
   words (calculate_word_statistics [0x48, 0x65, 0x6C, 0x6C, 0x6F, 0x20, 0x4E16, 0x754C]) = 3 \<and>
   non_asian_words
     (calculate_word_statistics [0x48, 0x65, 0x6C, 0x6C, 0x6F, 0x20, 0x4E16, 0x754C]) = 1 \<and>
   asian_characters
     (calculate_word_statistics [0x48, 0x65, 0x6C, 0x6C, 0x6F, 0x20, 0x4E16, 0x754C]) = 2 \<and>
   calculate_word_statistics [0x20, 0x09, 0x0A, 0x0D, 0x20]
     = \<lparr> words = 0, characters_no_space = 0, characters_with_space = 3,
         non_asian_words = 0, asian_characters = 0 \<rparr>"
proof -
  have empty:
    "calculate_word_statistics []
       = \<lparr> words = 0, characters_no_space = 0, characters_with_space = 0,
           non_asian_words = 0, asian_characters = 0 \<rparr>"
    by (rule Statistics.equality) (simp_all add: stats_fields)
  have hello:
    "words (calculate_word_statistics [0x48, 0x65, 0x6C, 0x6C, 0x6F, 0x20, 0x4E16, 0x754C]) = 3"
    "non_asian_words
       (calculate_word_statistics [0x48, 0x65, 0x6C, 0x6C, 0x6F, 0x20, 0x4E16, 0x754C]) = 1"
    "asian_characters
       (calculate_word_statistics [0x48, 0x65, 0x6C, 0x6C, 0x6F, 0x20, 0x4E16, 0x754C]) = 2"
    by (simp_all add: stats_fields class_defs)
  have blank:
    "calculate_word_statistics [0x20, 0x09, 0x0A, 0x0D, 0x20]
       = \<lparr> words = 0, characters_no_space = 0, characters_with_space = 3,
           non_asian_words = 0, asian_characters = 0 \<rparr>"
    by (rule Statistics.equality) (simp_all add: stats_fields class_defs)
  from empty hello blank show ?thesis by simp
qed

section \<open>Every metric is bounded by the length of the text\<close>

text \<open>
  C10. Each of the five fields of \<open>calculate_word_statistics\<close>, and each of \<open>count_words\<close>,
  \<open>count_characters\<close> and \<open>count_characters_with_space\<close>, is a non-negative integer and at
  most the number of code points of the text.
\<close>

theorem C10_metrics_bounded_by_length:
  "0 \<le> words (calculate_word_statistics t) \<and>
   words (calculate_word_statistics t) \<le> int (length t) \<and>
   0 \<le> characters_no_space (calculate_word_statistics t) \<and>
   characters_no_space (calculate_word_statistics t) \<le> int (length t) \<and>
   0 \<le> characters_with_space (calculate_word_statistics t) \<and>
   characters_with_space (calculate_word_statistics t) \<le> int (length t) \<and>
   0 \<le> non_asian_words (calculate_word_statistics t) \<and>
   non_asian_words (calculate_word_statistics t) \<le> int (length t) \<and>
   0 \<le> asian_characters (calculate_word_statistics t) \<and>
   asian_characters (calculate_word_statistics t) \<le> int (length t) \<and>
   0 \<le> count_words t \<and> count_words t \<le> int (length t) \<and>
   0 \<le> count_characters t \<and> count_characters t \<le> int (length t) \<and>
   0 \<le> count_characters_with_space t \<and> count_characters_with_space t \<le> int (length t)"
proof -
  have naw: "int (length (finditer_plus NON_ASIAN_WORDS_class t)) \<le> int (length t)"
    using length_finditer_plus_le[of NON_ASIAN_WORDS_class t]
      length_filter_le[of NON_ASIAN_WORDS_class t] by linarith
  have cns: "length (filter (\<lambda>c. \<not> excluded_mark c) (filter (\<lambda>c. \<not> whitespace_set c) t))
               \<le> length t"
    by (rule order_trans[OF length_filter_le length_filter_le])
  have cws: "length (filter (\<lambda>c. \<not> excluded_mark c) (filter (\<lambda>c. \<not> line_break_set c) t))
               \<le> length t"
    by (rule order_trans[OF length_filter_le length_filter_le])
  show ?thesis
    unfolding stats_fields count_words_sum count_characters_filter
      count_characters_with_space_filter
    using naw cns cws words_le_length[of t] by simp
qed

section \<open>Runs of Asian characters and of word characters\<close>

text \<open>
  C2, amended. \<open>asian_characters\<close> is the total number of characters in the maximal runs of
  Asian-set characters (the number of Asian characters, not of runs). \<open>non_asian_words\<close> is
  the number of maximal runs of characters that are neither in the Asian set nor whitespace
  for the escape \<open>\s\<close> of the word pattern, which is the whitespace set together with U+0085,
  U+2028 and U+2029. The Asian set is the union of the five scripts and the ten blocks
  with U+30FB and U+30FC; no character of Enclosed Alphanumerics is in it, and two circled
  digits in a row are one non-Asian word. Punctuation attached to a word is part of its
  token: the tokens of \<open>Test 123, example.\<close> are \<open>Test\<close>, \<open>123,\<close> and \<open>example.\<close>
\<close>

theorem C2_runs:
  "asian_characters (calculate_word_statistics t)
     = int (sum_list (map length (maximal_runs ASIAN_PATTERN t))) \<and>
   asian_characters (calculate_word_statistics t) = int (length (filter ASIAN_PATTERN t)) \<and>
   non_asian_words (calculate_word_statistics t)
     = int (length
         (maximal_runs (\<lambda>c. \<not> ASIAN_PATTERN c \<and> \<not> in_ranges White_Space c) t)) \<and>
   (in_ranges White_Space c \<longleftrightarrow> whitespace_set c \<or> c = 0x85 \<or> unicode_separator c) \<and>
   (ASIAN_PATTERN c \<longleftrightarrow>
      in_ranges Script_Han c \<or> in_ranges Script_Hiragana c \<or> in_ranges Script_Katakana c \<or>
      in_ranges Script_Hangul c \<or> in_ranges Script_Bopomofo c \<or>
      in_ranges Block_Halfwidth_and_Fullwidth_Forms c \<or>
      in_ranges Block_CJK_Symbols_and_Punctuation c \<or>
      in_ranges Block_Enclosed_CJK_Letters_and_Months c \<or>
      in_ranges Block_CJK_Compatibility c \<or>
      in_ranges Block_CJK_Compatibility_Forms c \<or>
      in_ranges Block_Vertical_Forms c \<or>
      in_ranges Block_Kangxi_Radicals c \<or>
      in_ranges Block_CJK_Radicals_Supplement c \<or>
      in_ranges Block_Ideographic_Symbols_and_Punctuation c \<or>
      in_ranges Block_Katakana_Phonetic_Extensions c \<or>
      c \<in> {0x30FB, 0x30FC}) \<and>
   \<not> (\<exists>e. in_ranges Block_Enclosed_Alphanumerics e \<and> ASIAN_PATTERN e) \<and>
   non_asian_words (calculate_word_statistics [0x2460, 0x2461]) = 1 \<and>
   asian_characters (calculate_word_statistics [0x2460, 0x2461]) = 0 \<and>
   finditer NON_ASIAN_WORDS
       [0x54, 0x65, 0x73, 0x74, 0x20, 0x31, 0x32, 0x33, 0x2C, 0x20,
        0x65, 0x78, 0x61, 0x6D, 0x70, 0x6C, 0x65, 0x2E]
     = [[0x54, 0x65, 0x73, 0x74], [0x31, 0x32, 0x33, 0x2C],
        [0x65, 0x78, 0x61, 0x6D, 0x70, 0x6C, 0x65, 0x2E]]"
proof -
  have a: "asian_characters (calculate_word_statistics t)
     = int (sum_list (map length (maximal_runs ASIAN_PATTERN t)))"
    by (simp only: int_sum_lengths finditer_plus_maximal_runs[symmetric]
        sum_length_finditer_plus asian_characters_filter)
  have n: "non_asian_words (calculate_word_statistics t)
     = int (length
         (maximal_runs (\<lambda>c. \<not> ASIAN_PATTERN c \<and> \<not> in_ranges White_Space c) t))"
    by (simp only: non_asian_words_finditer finditer_plus_maximal_runs
        NON_ASIAN_WORDS_class_conj)
  have p: "ASIAN_PATTERN c \<longleftrightarrow>
      in_ranges Script_Han c \<or> in_ranges Script_Hiragana c \<or> in_ranges Script_Katakana c \<or>
      in_ranges Script_Hangul c \<or> in_ranges Script_Bopomofo c \<or>
      in_ranges Block_Halfwidth_and_Fullwidth_Forms c \<or>
      in_ranges Block_CJK_Symbols_and_Punctuation c \<or>
      in_ranges Block_Enclosed_CJK_Letters_and_Months c \<or>
      in_ranges Block_CJK_Compatibility c \<or>
      in_ranges Block_CJK_Compatibility_Forms c \<or>
      in_ranges Block_Vertical_Forms c \<or>
      in_ranges Block_Kangxi_Radicals c \<or>
      in_ranges Block_CJK_Radicals_Supplement c \<or>
      in_ranges Block_Ideographic_Symbols_and_Punctuation c \<or>
      in_ranges Block_Katakana_Phonetic_Extensions c \<or>
      c \<in> {0x30FB, 0x30FC}"
    unfolding ASIAN_PATTERN_def by simp
  have e: "\<not> (\<exists>e. in_ranges Block_Enclosed_Alphanumerics e \<and> ASIAN_PATTERN e)"
    using enclosed_alphanumerics_not_asian by blast
  have c: "non_asian_words (calculate_word_statistics [0x2460, 0x2461]) = 1"
    "asian_characters (calculate_word_statistics [0x2460, 0x2461]) = 0"
    by (simp_all add: stats_fields class_defs)
  have w: "finditer NON_ASIAN_WORDS
       [0x54, 0x65, 0x73, 0x74, 0x20, 0x31, 0x32, 0x33, 0x2C, 0x20,
        0x65, 0x78, 0x61, 0x6D, 0x70, 0x6C, 0x65, 0x2E]
     = [[0x54, 0x65, 0x73, 0x74], [0x31, 0x32, 0x33, 0x2C],
        [0x65, 0x78, 0x61, 0x6D, 0x70, 0x6C, 0x65, 0x2E]]"
    by (simp add: NON_ASIAN_WORDS_def class_defs)
  from a n p e c w White_Space_cases[of c] asian_characters_filter[of t] show ?thesis
    by blast
qed

text \<open>
  C2 as stated, with the whitespace set in the place of \<open>\s\<close>, fails on the text
  \<open>a\<close>, U+2028, \<open>b\<close>: U+2028 is not in the whitespace set, so the three characters are one
  maximal run, but the program counts two non-Asian words.
\<close>

theorem C2_counterexample:
  "non_asian_words (calculate_word_statistics [0x61, 0x2028, 0x62]) = 2 \<and>
   int (length (maximal_runs (\<lambda>c. \<not> ASIAN_PATTERN c \<and> \<not> whitespace_set c)
          [0x61, 0x2028, 0x62])) = 1"
  by (simp add: finditer_plus_maximal_runs[symmetric] stats_fields class_defs)

section \<open>A line or paragraph separator appended to a text\<close>

text \<open>
  C4, amended. Appending one U+2028 or U+2029 to any text increases \<open>words\<close> by exactly 1
  and leaves \<open>non_asian_words\<close> and \<open>asian_characters\<close> unchanged; it increases
  \<open>characters_no_space\<close> and \<open>characters_with_space\<close> by exactly 1 each, since neither
  \<open>SPACES\<close> nor \<open>BREAKS\<close> nor \<open>CHAR_EXCLUDES\<close> removes the separator.
\<close>

theorem C4_separator_appended:
  assumes "unicode_separator u"
  shows "words (calculate_word_statistics (t @ [u])) = words (calculate_word_statistics t) + 1 \<and>
     non_asian_words (calculate_word_statistics (t @ [u]))
       = non_asian_words (calculate_word_statistics t) \<and>
     asian_characters (calculate_word_statistics (t @ [u]))
       = asian_characters (calculate_word_statistics t) \<and>
     characters_no_space (calculate_word_statistics (t @ [u]))
       = characters_no_space (calculate_word_statistics t) + 1 \<and>
     characters_with_space (calculate_word_statistics (t @ [u]))
       = characters_with_space (calculate_word_statistics t) + 1"
  using assms
  by (simp add: stats_fields length_finditer_plus_append_other separator_not_word
      separator_not_asian separator_not_whitespace_set separator_not_line_break
      separator_not_excluded)

theorem C4_separator_appended_witness:
  "unicode_separator 0x2029 \<and>
   words (calculate_word_statistics ([0x61] @ [0x2029]))
     = words (calculate_word_statistics [0x61]) + 1 \<and>
   characters_no_space (calculate_word_statistics ([0x61] @ [0x2029]))
     = characters_no_space (calculate_word_statistics [0x61]) + 1"
proof -
  have h: "unicode_separator 0x2029" by (simp add: unicode_separator_def)
  from C4_separator_appended[OF h, of "[0x61]"] h show ?thesis by blast
qed

text \<open>
  C4 as stated fails on the text \<open>a\<close>: appending U+2028 changes both character counts.
\<close>

theorem C4_counterexample:
  "characters_no_space (calculate_word_statistics ([0x61] @ [0x2028]))
     \<noteq> characters_no_space (calculate_word_statistics [0x61]) \<and>
   characters_with_space (calculate_word_statistics ([0x61] @ [0x2028]))
     \<noteq> characters_with_space (calculate_word_statistics [0x61])"
  by (simp add: stats_fields class_defs)

section \<open>An excluded mark inserted into a text\<close>

text \<open>
  C5, amended. Inserting an excluded mark at any position of a text changes none of
  \<open>characters_no_space\<close>, \<open>characters_with_space\<close> and \<open>asian_characters\<close>. The mark is a
  character of a non-Asian word: \<open>non_asian_words\<close> and \<open>words\<close> are unchanged when the mark
  is inserted directly before or after a character of a non-Asian word, and each increases
  by exactly 1 otherwise.
\<close>

theorem C5_excluded_mark_inserted:
  assumes "excluded_mark c" and "i \<le> length s"
  shows "characters_no_space (calculate_word_statistics (insert_at i c s))
       = characters_no_space (calculate_word_statistics s) \<and>
     characters_with_space (calculate_word_statistics (insert_at i c s))
       = characters_with_space (calculate_word_statistics s) \<and>
     asian_characters (calculate_word_statistics (insert_at i c s))
       = asian_characters (calculate_word_statistics s) \<and>
     non_asian_words (calculate_word_statistics (insert_at i c s))
       = non_asian_words (calculate_word_statistics s) + (if beside_word i s then 0 else 1) \<and>
     words (calculate_word_statistics (insert_at i c s))
       = words (calculate_word_statistics s) + (if beside_word i s then 0 else 1)"
proof -
  let ?xs = "take i s" and ?ys = "drop i s"
  have s: "s = ?xs @ ?ys" by simp
  have runs: "int (length (finditer_plus NON_ASIAN_WORDS_class (?xs @ [c] @ ?ys)))
      = int (length (finditer_plus NON_ASIAN_WORDS_class s)) + (if beside_word i s then 0 else 1)"
    using length_finditer_plus_insert[of NON_ASIAN_WORDS_class c ?xs ?ys]
      excluded_word[OF assms(1)] beside_word_take_drop[OF assms(2)]
    by simp
  have filt: "filter Q (?xs @ [c] @ ?ys) = filter Q s" if "\<not> Q c" for Q
  proof -
    have "filter Q (?xs @ [c] @ ?ys) = filter Q ?xs @ filter Q ?ys" using that by simp
    also have "\<dots> = filter Q (?xs @ ?ys)" by (simp only: filter_append)
    finally show ?thesis by (simp only: append_take_drop_id)
  qed
  have sep: "\<not> unicode_separator c"
    using assms(1) separator_not_excluded by blast
  have ex: "filter (\<lambda>c. \<not> excluded_mark c) (filter Q (?xs @ [c] @ ?ys))
      = filter (\<lambda>c. \<not> excluded_mark c) (filter Q s)" for Q
  proof -
    have "filter (\<lambda>c. \<not> excluded_mark c) (filter Q (?xs @ [c] @ ?ys))
      = filter (\<lambda>c. \<not> excluded_mark c) (filter Q ?xs)
        @ filter (\<lambda>c. \<not> excluded_mark c) (filter Q ?ys)"
      using assms(1) by simp
    also have "\<dots> = filter (\<lambda>c. \<not> excluded_mark c) (filter Q (?xs @ ?ys))"
      by (simp only: filter_append)
    finally show ?thesis by (simp only: append_take_drop_id)
  qed
  note asian = filt[of ASIAN_PATTERN, OF excluded_not_asian[OF assms(1)]]
  note seps = filt[of unicode_separator, OF sep]
  have "characters_no_space (calculate_word_statistics (insert_at i c s))
       = characters_no_space (calculate_word_statistics s)"
    by (simp only: characters_no_space_filter insert_at_def ex)
  moreover have "characters_with_space (calculate_word_statistics (insert_at i c s))
       = characters_with_space (calculate_word_statistics s)"
    by (simp only: characters_with_space_filter insert_at_def ex)
  moreover have "asian_characters (calculate_word_statistics (insert_at i c s))
       = asian_characters (calculate_word_statistics s)"
    by (simp only: asian_characters_filter insert_at_def asian)
  moreover have "non_asian_words (calculate_word_statistics (insert_at i c s))
       = non_asian_words (calculate_word_statistics s) + (if beside_word i s then 0 else 1)"
    by (simp only: non_asian_words_finditer insert_at_def runs)
  moreover have "words (calculate_word_statistics (insert_at i c s))
       = words (calculate_word_statistics s) + (if beside_word i s then 0 else 1)"
    unfolding words_sum insert_at_def runs asian seps by simp
  ultimately show ?thesis by blast
qed

theorem C5_excluded_mark_inserted_witness:
  "excluded_mark 0x200B \<and> (1::nat) \<le> length [0x4E16, 0x754C :: nat] \<and>
   \<not> beside_word 1 [0x4E16, 0x754C] \<and>
   characters_no_space (calculate_word_statistics (insert_at 1 0x200B [0x4E16, 0x754C]))
     = characters_no_space (calculate_word_statistics [0x4E16, 0x754C]) \<and>
   words (calculate_word_statistics (insert_at 1 0x200B [0x4E16, 0x754C]))
     = words (calculate_word_statistics [0x4E16, 0x754C]) + 1"
proof -
  have h: "excluded_mark 0x200B" by (simp add: excluded_mark_def)
  have i: "(1::nat) \<le> length [0x4E16, 0x754C :: nat]" by simp
  have b: "\<not> beside_word 1 [0x4E16, 0x754C]"
    by (simp add: beside_word_def class_defs)
  from C5_excluded_mark_inserted[OF h i] h i b show ?thesis by simp
qed

text \<open>
  C5 as stated fails on the text U+4E16, U+754C: U+FEFF inserted at its start is a
  non-Asian word of its own, so \<open>words\<close> and \<open>non_asian_words\<close> both change.
\<close>

theorem C5_counterexample:
  "excluded_mark 0xFEFF \<and>
   words (calculate_word_statistics (insert_at 0 0xFEFF [0x4E16, 0x754C]))
     \<noteq> words (calculate_word_statistics [0x4E16, 0x754C]) \<and>
   non_asian_words (calculate_word_statistics (insert_at 0 0xFEFF [0x4E16, 0x754C]))
     \<noteq> non_asian_words (calculate_word_statistics [0x4E16, 0x754C])"
  by (simp add: stats_fields class_defs insert_at_def)

end
